theory Spec2Isabelle
  imports Complex_Main "HOL-Library.AList"
begin

section \<open>Python values and text\<close>

text \<open>
  A Python \<open>str\<close> is a sequence of code points. It is modelled as a \<open>string\<close> whose
  characters stand for the code points below 256. \<open>py_isspace\<close> is the set of characters
  that \<open>str.strip()\<close> removes when called without an argument, restricted to that range.
\<close>

definition py_isspace :: "char \<Rightarrow> bool" where
  "py_isspace c =
     (let n = (of_char c :: nat)
      in (9 \<le> n \<and> n \<le> 13) \<or> (28 \<le> n \<and> n \<le> 32) \<or> n = 133 \<or> n = 160)"

definition py_strip :: "string \<Rightarrow> string" where
  "py_strip s = rev (dropWhile py_isspace (rev (dropWhile py_isspace s)))"

definition py_startswith :: "string \<Rightarrow> string \<Rightarrow> bool" where
  "py_startswith p s = (take (length p) s = p)"

text \<open>\<open>s.split(sep, 1)\<close> for a one-character separator that occurs in \<open>s\<close>.\<close>

definition split_first :: "char \<Rightarrow> string \<Rightarrow> string \<times> string" where
  "split_first sep s = (takeWhile (\<lambda>c. c \<noteq> sep) s, tl (dropWhile (\<lambda>c. c \<noteq> sep) s))"

text \<open>
  The values the program handles are the ones \<open>json.loads\<close> produces, and \<open>None\<close>.
  A \<open>dict\<close> is an association list in insertion order (its keys are distinct in every
  value Python builds). A float is a real number or one of the non-finite values that
  \<open>json.loads\<close> accepts.
\<close>

datatype pyfloat = Finite real | NaN | Infinite bool

datatype pyval =
    PNone
  | PBool bool
  | PInt int
  | PFloat pyfloat
  | PStr string
  | PList "pyval list"
  | PDict "(string \<times> pyval) list"

type_synonym pydict = "(string \<times> pyval) list"

text \<open>Truth value testing, as \<open>if x:\<close> and \<open>not x\<close> apply it.\<close>

fun py_truthy :: "pyval \<Rightarrow> bool" where
  "py_truthy PNone = False"
| "py_truthy (PBool b) = b"
| "py_truthy (PInt i) = (i \<noteq> 0)"
| "py_truthy (PFloat f) = (f \<noteq> Finite 0)"
| "py_truthy (PStr s) = (s \<noteq> [])"
| "py_truthy (PList xs) = (xs \<noteq> [])"
| "py_truthy (PDict kvs) = (kvs \<noteq> [])"

section \<open>The file system and the environment file\<close>

datatype file_state = Absent | Unreadable | Readable string

type_synonym fs = "string \<Rightarrow> file_state"

datatype error = OSError | TypeError | AttributeError | KeyError

text \<open>
  Iterating over a file opened in text mode yields its lines, each with its terminator;
  \<open>\r\n\<close> and a lone \<open>\r\<close> are read as \<open>\n\<close>.
\<close>

fun split_lines :: "string \<Rightarrow> string \<Rightarrow> string list" where
  "split_lines [] cur = (if cur = [] then [] else [cur])"
| "split_lines (c # cs) cur =
     (if c = CHR 0x0A then (cur @ [CHR 0x0A]) # split_lines cs []
      else if c = CHR 0x0D then
        (case cs of
           [] \<Rightarrow> [cur @ [CHR 0x0A]]
         | d # ds \<Rightarrow>
             if d = CHR 0x0A then (cur @ [CHR 0x0A]) # split_lines ds []
             else (cur @ [CHR 0x0A]) # split_lines cs [])
      else split_lines cs (cur @ [c]))"

definition file_lines :: "string \<Rightarrow> string list" where
  "file_lines content = split_lines content []"

text \<open>The loop body of \<open>load_env_file\<close>, over the lines still to read.\<close>

fun load_env_lines :: "string list \<Rightarrow> (string \<rightharpoonup> string) \<Rightarrow> (string \<rightharpoonup> string)" where
  "load_env_lines [] env_vars = env_vars"
| "load_env_lines (raw # rest) env_vars =
     (let line = py_strip raw
      in if line = [] \<or> py_startswith ''#'' line then load_env_lines rest env_vars
         else if CHR ''='' \<in> set line then
           (case split_first CHR ''='' line of
              (key, val) \<Rightarrow> load_env_lines rest (env_vars(py_strip key \<mapsto> py_strip val)))
         else load_env_lines rest env_vars)"

definition load_env_file :: "fs \<Rightarrow> string \<Rightarrow> error + (string \<rightharpoonup> string)" where
  "load_env_file files env_path =
     (case files env_path of
        Absent \<Rightarrow> Inr Map.empty
      | Unreadable \<Rightarrow> Inl OSError
      | Readable content \<Rightarrow> Inr (load_env_lines (file_lines content) Map.empty))"

text \<open>
  The reference definition of the environment loader, following the specification's
  words: one entry for each line that is not blank, whose first non-whitespace character
  is not \<open>#\<close> and that contains \<open>=\<close>; key and value are the two sides of the first
  \<open>=\<close> of that line, trimmed.
\<close>

definition spec_is_entry_line :: "string \<Rightarrow> bool" where
  "spec_is_entry_line l =
     (\<not> list_all py_isspace l \<and> hd (dropWhile py_isspace l) \<noteq> CHR ''#'' \<and> CHR ''='' \<in> set l)"

definition spec_entry :: "string \<Rightarrow> string \<times> string" where
  "spec_entry l =
     (py_strip (takeWhile (\<lambda>c. c \<noteq> CHR ''='') l),
      py_strip (tl (dropWhile (\<lambda>c. c \<noteq> CHR ''='') l)))"

definition spec_env_entries :: "string list \<Rightarrow> (string \<times> string) list" where
  "spec_env_entries ls = map spec_entry (filter spec_is_entry_line ls)"

section \<open>The world outside the program\<close>

text \<open>
  What \<open>subprocess.run\<close> returns when the process has run: its exit status and the two
  captured streams.
\<close>

record completed =
  returncode :: int
  stdout :: string
  stderr :: string

text \<open>
  The library and the operating system, as parameters:
  \<^item> \<open>environ\<close> is \<open>os.environ\<close>;
  \<^item> \<open>expanduser\<close> is \<open>os.path.expanduser\<close>;
  \<^item> \<open>json_loads\<close> is \<open>json.loads\<close>, \<open>None\<close> when it raises;
  \<^item> \<open>now_iso\<close> is \<open>datetime.now().isoformat()\<close>;
  \<^item> \<open>spawn\<close> is \<open>subprocess.run\<close> with the command, the environment and the file
    system it starts in: \<open>None\<close> when it raises, else what the process returned and the
    file system it left;
  \<^item> \<open>new_temp\<close> is the name \<open>tempfile.NamedTemporaryFile\<close> picks, \<open>None\<close> when it
    raises;
  \<^item> \<open>make_dirs\<close> is \<open>os.makedirs\<close> with \<open>exist_ok=True\<close>, \<open>None\<close> when it raises;
  \<^item> \<open>stdout_writes\<close> tells of a character that is not ASCII whether standard output
    can write it: its encoding has the character, or its error handler replaces it.
\<close>

record world =
  environ :: "string \<rightharpoonup> string"
  expanduser :: "string \<Rightarrow> string"
  json_loads :: "string \<Rightarrow> pyval option"
  now_iso :: string
  spawn :: "string list \<Rightarrow> (string \<rightharpoonup> string) \<Rightarrow> fs \<Rightarrow> (completed \<times> fs) option"
  new_temp :: "fs \<Rightarrow> string option"
  make_dirs :: "string \<Rightarrow> fs \<Rightarrow> fs option"
  stdout_writes :: "char \<Rightarrow> bool"

text \<open>
  \<open>print\<close> to standard output raises when the text holds a character that standard
  output cannot write, and then writes nothing. ASCII text is always written: the report
  that \<open>main\<close> prints with \<open>json.dumps\<close> is ASCII, and so are the fixed parts of
  the other lines. Standard error escapes what it cannot encode, so the diagnostics are
  always written.

  \<open>repr\<close> of a string escapes the characters that are not printable; of the
  characters from 128 on it leaves as they are those from 161 on other than the soft
  hyphen 173. An f-string formats a string as it is, and any other value by its
  \<open>repr\<close>, which applies \<open>repr\<close> to the strings inside lists and dicts, keys
  included; numbers, booleans and \<open>None\<close> give ASCII.
\<close>

definition repr_ascii :: "char \<Rightarrow> bool" where
  "repr_ascii c = (let n = (of_char c :: nat) in n < 161 \<or> n = 173)"

definition repr_writes :: "world \<Rightarrow> string \<Rightarrow> bool" where
  "repr_writes w s = list_all (\<lambda>c. repr_ascii c \<or> stdout_writes w c) s"

definition str_writes :: "world \<Rightarrow> string \<Rightarrow> bool" where
  "str_writes w s = list_all (\<lambda>c. (of_char c :: nat) < 128 \<or> stdout_writes w c) s"

fun val_repr_writes :: "world \<Rightarrow> pyval \<Rightarrow> bool"
  and items_repr_writes :: "world \<Rightarrow> (string \<times> pyval) list \<Rightarrow> bool"
  and list_repr_writes :: "world \<Rightarrow> pyval list \<Rightarrow> bool" where
  "val_repr_writes w (PStr s) = repr_writes w s"
| "val_repr_writes w (PList xs) = list_repr_writes w xs"
| "val_repr_writes w (PDict kvs) = items_repr_writes w kvs"
| "val_repr_writes w PNone = True"
| "val_repr_writes w (PBool b) = True"
| "val_repr_writes w (PInt i) = True"
| "val_repr_writes w (PFloat f) = True"
| "items_repr_writes w [] = True"
| "items_repr_writes w (kv # kvs) =
     (repr_writes w (fst kv) \<and> val_repr_writes w (snd kv) \<and> items_repr_writes w kvs)"
| "list_repr_writes w [] = True"
| "list_repr_writes w (x # xs) = (val_repr_writes w x \<and> list_repr_writes w xs)"

text \<open>Whether \<open>print(f"... {v}")\<close> succeeds.\<close>

definition format_writes :: "world \<Rightarrow> pyval \<Rightarrow> bool" where
  "format_writes w v = (case v of PStr s \<Rightarrow> str_writes w s | _ \<Rightarrow> val_repr_writes w v)"

text \<open>What the program writes: lines on standard output and on standard error.\<close>

datatype out_line =
    Downloaded "string list"
  | ImportResult pyval
  | Report pydict

datatype err_line =
    ErrDownloading string
  | ErrParsingDownloader
  | ErrRunningDownloader
  | ErrImporting string
  | ErrParsingImporter
  | ErrRunningImporter

text \<open>
  The state the program changes: the file system, the commands it has handed to
  \<open>subprocess.run\<close> (in order, also when the call raised), the lines written to
  standard output and the lines written to standard error.
\<close>

record state =
  files :: fs
  commands :: "string list list"
  printed :: "out_line list"
  diagnostics :: "err_line list"

definition say :: "out_line \<Rightarrow> state \<Rightarrow> state" where
  "say l s = s\<lparr>printed := printed s @ [l]\<rparr>"

definition complain :: "err_line \<Rightarrow> state \<Rightarrow> state" where
  "complain l s = s\<lparr>diagnostics := diagnostics s @ [l]\<rparr>"

section \<open>The downloader adapter\<close>

text \<open>
  \<open>re.search(r"Processed ([^:]+):", entry)\<close>, returning group 1. At a given start the
  pattern matches exactly when the text \<open>Processed\<close> and a space are followed by a
  non-empty run of characters other than \<open>:\<close> and then by \<open>:\<close>; the group is that whole
  run. The search takes the leftmost start that matches.
\<close>

definition match_processed_here :: "string \<Rightarrow> string option" where
  "match_processed_here s =
     (if take 10 s = ''Processed '' then
        (let rest = drop 10 s;
             path = takeWhile (\<lambda>c. c \<noteq> CHR '':'') rest;
             tail = dropWhile (\<lambda>c. c \<noteq> CHR '':'') rest
         in if path \<noteq> [] \<and> tail \<noteq> [] then Some path else None)
      else None)"

fun re_search_processed :: "string \<Rightarrow> string option" where
  "re_search_processed [] = None"
| "re_search_processed (c # cs) =
     (case match_processed_here (c # cs) of
        Some path \<Rightarrow> Some path
      | None \<Rightarrow> re_search_processed cs)"

text \<open>\<open>d.get(key, default)\<close>: only a dict has the method.\<close>

definition py_get :: "pyval \<Rightarrow> string \<Rightarrow> pyval \<Rightarrow> error + pyval" where
  "py_get d key dflt =
     (case d of
        PDict kvs \<Rightarrow> (case map_of kvs key of Some v \<Rightarrow> Inr v | None \<Rightarrow> Inr dflt)
      | _ \<Rightarrow> Inl AttributeError)"

text \<open>What \<open>for entry in processed\<close> visits: the items of a list, the characters of a
  string, the keys of a dict; anything else is not iterable.\<close>

definition py_iter :: "pyval \<Rightarrow> error + pyval list" where
  "py_iter v =
     (case v of
        PList xs \<Rightarrow> Inr xs
      | PStr s \<Rightarrow> Inr (map (\<lambda>c. PStr [c]) s)
      | PDict kvs \<Rightarrow> Inr (map (\<lambda>kv. PStr (fst kv)) kvs)
      | _ \<Rightarrow> Inl TypeError)"

text \<open>The loop that fills \<open>files\<close>; \<open>re.search\<close> raises on an entry that is not a string.\<close>

fun collect_files :: "pyval list \<Rightarrow> string list \<Rightarrow> error + string list" where
  "collect_files [] found = Inr found"
| "collect_files (entry # rest) found =
     (case entry of
        PStr e \<Rightarrow>
          (case re_search_processed e of
             Some path \<Rightarrow> collect_files rest (found @ [path])
           | None \<Rightarrow> collect_files rest found)
      | _ \<Rightarrow> Inl TypeError)"

text \<open>The entries as strings, when every one of them is a string.\<close>

fun str_entries :: "pyval list \<Rightarrow> string list option" where
  "str_entries [] = Some []"
| "str_entries (PStr e # rest) = map_option (Cons e) (str_entries rest)"
| "str_entries (_ # rest) = None"

text \<open>The body of the inner \<open>try\<close>, after \<open>json.loads\<close> has returned \<open>report\<close>,
  up to the \<open>print\<close>.\<close>

definition extract_files :: "pyval \<Rightarrow> error + string list" where
  "extract_files report =
     (case py_get report ''artifacts'' (PDict []) of
        Inl e \<Rightarrow> Inl e
      | Inr artifacts \<Rightarrow>
          (case py_get artifacts ''processed_files'' (PList []) of
             Inl e \<Rightarrow> Inl e
           | Inr processed \<Rightarrow>
               (case py_iter processed of
                  Inl e \<Rightarrow> Inl e
                | Inr entries \<Rightarrow> collect_files entries [])))"

definition downloader_cmd :: "world \<Rightarrow> string \<Rightarrow> string list" where
  "downloader_cmd w output_dir =
     [''php'',
      expanduser w ''~/Projects/VitexSoftware/csas-statement-tools/src/csas-statement-downloader.php'',
      ''-d'' @ output_dir,
      ''-fabo-standard'',
      ''-o'', ''php://stdout'']"

text \<open>
  \<open>download_statements\<close> returns the pair \<open>(files, report)\<close>, or \<open>(None, None)\<close>;
  \<open>PNone\<close> is the report \<open>None\<close>. The line that lists the files is printed inside
  the inner \<open>try\<close>: when it cannot be written, the handler returns \<open>(None, None)\<close>.
\<close>

definition download_statements ::
  "world \<Rightarrow> string \<Rightarrow> string \<Rightarrow> string \<Rightarrow> state \<Rightarrow> (string list option \<times> pyval) \<times> state" where
  "download_statements w from_date to_date output_dir s =
     (let cmd = downloader_cmd w output_dir
      in case load_env_file (files s) ''.env'' of
           Inl e \<Rightarrow> ((None, PNone), complain ErrRunningDownloader s)
         | Inr loaded \<Rightarrow>
             (case spawn w cmd (environ w ++ loaded) (files s) of
                None \<Rightarrow>
                  ((None, PNone),
                   complain ErrRunningDownloader (s\<lparr>commands := commands s @ [cmd]\<rparr>))
              | Some (result, files') \<Rightarrow>
                  (let s1 = s\<lparr>files := files', commands := commands s @ [cmd]\<rparr>
                   in if returncode result \<noteq> 0
                      then ((None, PNone), complain (ErrDownloading (stderr result)) s1)
                      else
                        (case json_loads w (stdout result) of
                           None \<Rightarrow> ((None, PNone), complain ErrParsingDownloader s1)
                         | Some report \<Rightarrow>
                             (case extract_files report of
                                Inl e \<Rightarrow> ((None, PNone), complain ErrParsingDownloader s1)
                              | Inr found \<Rightarrow>
                                  if format_writes w (PList (map PStr found))
                                  then ((Some found, report), say (Downloaded found) s1)
                                  else ((None, PNone),
                                        complain ErrParsingDownloader s1))))))"

section \<open>The importer adapter\<close>

definition importer_cmd :: "world \<Rightarrow> string \<Rightarrow> string list \<Rightarrow> string list" where
  "importer_cmd w report_path statement_file =
     [''php'',
      expanduser w ''~/Projects/SpojeNetIT/pohoda-abo-importer/src/importer.php'',
      ''-o'', report_path] @ statement_file"

text \<open>
  \<open>import_statement_to_pohoda\<close> returns the pair \<open>(importer_report, report_path)\<close>, or
  \<open>(None, None)\<close>. The temporary file is created empty before the importer runs.
  The line that shows the report is printed inside the inner \<open>try\<close>: when it cannot
  be written, the handler returns \<open>(None, None)\<close>.
\<close>

definition import_statement_to_pohoda ::
  "world \<Rightarrow> string list \<Rightarrow> string \<Rightarrow> string \<Rightarrow> state \<Rightarrow> (pyval \<times> string option) \<times> state" where
  "import_statement_to_pohoda w statement_file pohoda_url pohoda_token s =
     (case new_temp w (files s) of
        None \<Rightarrow> ((PNone, None), complain ErrRunningImporter s)
      | Some report_path \<Rightarrow>
          (let s0 = s\<lparr>files := (files s)(report_path := Readable [])\<rparr>;
               cmd = importer_cmd w report_path statement_file
           in case load_env_file (files s0) ''.env'' of
                Inl e \<Rightarrow> ((PNone, None), complain ErrRunningImporter s0)
              | Inr loaded \<Rightarrow>
                  (case spawn w cmd (environ w ++ loaded) (files s0) of
                     None \<Rightarrow>
                       ((PNone, None),
                        complain ErrRunningImporter (s0\<lparr>commands := commands s0 @ [cmd]\<rparr>))
                   | Some (result, files') \<Rightarrow>
                       (let s1 = s0\<lparr>files := files', commands := commands s0 @ [cmd]\<rparr>
                        in if returncode result \<noteq> 0
                           then ((PNone, None), complain (ErrImporting (stderr result)) s1)
                           else
                             (case files' report_path of
                                Readable content \<Rightarrow>
                                  (case json_loads w content of
                                     Some importer_report \<Rightarrow>
                                       if format_writes w importer_report
                                       then ((importer_report, Some report_path),
                                             say (ImportResult importer_report) s1)
                                       else ((PNone, None),
                                             complain ErrParsingImporter s1)
                                   | None \<Rightarrow> ((PNone, None), complain ErrParsingImporter s1))
                              | _ \<Rightarrow> ((PNone, None), complain ErrParsingImporter s1))))))"

section \<open>The orchestrator\<close>

text \<open>The parsed command line: \<open>main\<close> is modelled from the point where
  \<open>parse_args\<close> has returned.\<close>

record args =
  from_date :: string
  to_date :: string
  output_dir :: string
  pohoda_url :: string
  pohoda_token :: string

text \<open>
  How the process ends: \<open>main\<close> returns, \<open>sys.exit\<close> is called, or an exception
  reaches the top level.
\<close>

datatype outcome = Returned | SysExit int | Uncaught error

fun exit_code :: "outcome \<Rightarrow> int" where
  "exit_code Returned = 0"
| "exit_code (SysExit n) = n"
| "exit_code (Uncaught e) = 1"

text \<open>\<open>not statement_files\<close>: true of \<open>None\<close> and of the empty list.\<close>

fun py_not_files :: "string list option \<Rightarrow> bool" where
  "py_not_files None = True"
| "py_not_files (Some fl) = (fl = [])"

text \<open>\<open>d[outer][key] = v\<close>.\<close>

definition set_nested :: "string \<Rightarrow> string \<Rightarrow> pyval \<Rightarrow> pydict \<Rightarrow> error + pydict" where
  "set_nested outer key v d =
     (case map_of d outer of
        None \<Rightarrow> Inl KeyError
      | Some (PDict inner) \<Rightarrow> Inr (AList.update outer (PDict (AList.update key v inner)) d)
      | Some _ \<Rightarrow> Inl TypeError)"

text \<open>\<open>if downloader_report: report["downloader_report"] = downloader_report\<close>.\<close>

definition attach_downloader_report :: "pyval \<Rightarrow> pydict \<Rightarrow> pydict" where
  "attach_downloader_report downloader_report report =
     (if py_truthy downloader_report
      then AList.update ''downloader_report'' downloader_report report
      else report)"

definition error_report :: "string \<Rightarrow> pyval \<Rightarrow> pydict \<Rightarrow> pydict" where
  "error_report message downloader_report report =
     attach_downloader_report downloader_report
       (AList.update ''message'' (PStr message)
          (AList.update ''status'' (PStr ''error'') report))"

definition initial_report :: "world \<Rightarrow> pydict" where
  "initial_report w =
     [(''timestamp'', PStr (now_iso w)), (''artifacts'', PDict []), (''metrics'', PDict [])]"

text \<open>The part of \<open>main\<close> after the importer adapter has returned a report that is
  true.\<close>

definition merge_reports :: "pyval \<Rightarrow> pyval \<Rightarrow> pydict \<Rightarrow> error + pydict" where
  "merge_reports importer_report downloader_report report =
     (case py_get importer_report ''status'' (PStr ''success'') of
        Inl e \<Rightarrow> Inl e
      | Inr status \<Rightarrow>
          (case py_get importer_report ''message''
                  (PStr ''Statement(s) successfully imported to Pohoda.'') of
             Inl e \<Rightarrow> Inl e
           | Inr message \<Rightarrow>
               (case set_nested ''artifacts'' ''importer_report'' importer_report
                       (AList.update ''message'' message
                          (AList.update ''status'' status report)) of
                  Inl e \<Rightarrow> Inl e
                | Inr report' \<Rightarrow>
                    if py_truthy downloader_report
                    then set_nested ''artifacts'' ''downloader_report'' downloader_report report'
                    else Inr report')))"

definition main :: "world \<Rightarrow> args \<Rightarrow> state \<Rightarrow> outcome \<times> state" where
  "main w a s =
     (case make_dirs w (output_dir a) (files s) of
        None \<Rightarrow> (Uncaught OSError, s)
      | Some files0 \<Rightarrow>
          (case download_statements w (from_date a) (to_date a) (output_dir a)
                  (s\<lparr>files := files0\<rparr>) of
             ((statement_files, downloader_report), s1) \<Rightarrow>
               if py_not_files statement_files then
                 (SysExit 1,
                  say (Report (error_report ''Failed to download statement(s).''
                                 downloader_report (initial_report w))) s1)
               else
                 (case set_nested ''artifacts'' ''imported_statement''
                         (PList (map PStr (the statement_files))) (initial_report w) of
                    Inl e \<Rightarrow> (Uncaught e, s1)
                  | Inr report \<Rightarrow>
                      (case import_statement_to_pohoda w (the statement_files)
                              (pohoda_url a) (pohoda_token a) s1 of
                         ((importer_report, importer_report_path), s2) \<Rightarrow>
                           if \<not> py_truthy importer_report then
                             (SysExit 2,
                              say (Report (error_report
                                             ''Failed to import statement(s) to Pohoda.''
                                             downloader_report report)) s2)
                           else
                             (case merge_reports importer_report downloader_report report of
                                Inl e \<Rightarrow> (Uncaught e, s2)
                              | Inr report' \<Rightarrow> (Returned, say (Report report') s2))))))"

text \<open>Reading the printed report: the value at a top-level key, the value at a key
  under \<open>artifacts\<close>, and whether a key occurs at any depth.\<close>

definition field :: "string \<Rightarrow> pydict \<Rightarrow> pyval option" where
  "field k report = map_of report k"

definition artifact :: "string \<Rightarrow> pydict \<Rightarrow> pyval option" where
  "artifact k report =
     (case map_of report ''artifacts'' of
        Some (PDict inner) \<Rightarrow> map_of inner k
      | _ \<Rightarrow> None)"

fun has_key :: "string \<Rightarrow> pyval \<Rightarrow> bool"
  and has_key_items :: "string \<Rightarrow> (string \<times> pyval) list \<Rightarrow> bool"
  and has_key_list :: "string \<Rightarrow> pyval list \<Rightarrow> bool" where
  "has_key k (PDict kvs) = has_key_items k kvs"
| "has_key k (PList xs) = has_key_list k xs"
| "has_key k PNone = False"
| "has_key k (PBool b) = False"
| "has_key k (PInt i) = False"
| "has_key k (PFloat f) = False"
| "has_key k (PStr s) = False"
| "has_key_items k [] = False"
| "has_key_items k (kv # kvs) = (fst kv = k \<or> has_key k (snd kv) \<or> has_key_items k kvs)"
| "has_key_list k [] = False"
| "has_key_list k (x # xs) = (has_key k x \<or> has_key_list k xs)"

text \<open>The last report printed, if one was printed last.\<close>

definition final_report :: "state \<Rightarrow> pydict option" where
  "final_report s =
     (case rev (printed s) of
        Report r # _ \<Rightarrow> Some r
      | _ \<Rightarrow> None)"

text \<open>A field of the last report printed, an entry of its \<open>artifacts\<close>, and whether it
  holds a key at any depth.\<close>

definition printed_field :: "string \<Rightarrow> state \<Rightarrow> pyval option" where
  "printed_field k s = (case final_report s of Some r \<Rightarrow> field k r | None \<Rightarrow> None)"

definition printed_artifact :: "string \<Rightarrow> state \<Rightarrow> pyval option" where
  "printed_artifact k s = (case final_report s of Some r \<Rightarrow> artifact k r | None \<Rightarrow> None)"

definition printed_has_key :: "string \<Rightarrow> state \<Rightarrow> bool" where
  "printed_has_key k s = (case final_report s of Some r \<Rightarrow> has_key k (PDict r) | None \<Rightarrow> False)"

section \<open>Concrete runs\<close>

text \<open>A small world in which both tools succeed, used to run the model on concrete
  inputs; its parameters make one of the tools fail or change what the downloader
  prints.\<close>

definition example_env_text :: string where
  "example_env_text =
     ''A=1'' @ [CHR 0x0A] @ ''# note'' @ [CHR 0x0A] @ [CHR 0x0A] @ '' B = x=y '' @ [CHR 0x0A] @ ''C''"

definition example_files :: fs where
  "example_files = (\<lambda>p. Absent)(''.env'' := Readable example_env_text)"

definition example_downloader_text :: string where
  \<open>example_downloader_text =
     ''{"artifacts":{"processed_files":["Processed /tmp/a.abo: ok"]}}''\<close>

definition example_downloader_report :: pyval where
  "example_downloader_report =
     PDict [(''artifacts'',
             PDict [(''processed_files'', PList [PStr ''Processed /tmp/a.abo: ok''])])]"

definition example_importer_text :: string where
  \<open>example_importer_text = ''{"status":"success","message":"done"}''\<close>

definition example_importer_report :: pyval where
  "example_importer_report =
     PDict [(''status'', PStr ''success''), (''message'', PStr ''done'')]"

definition example_json_loads :: "string \<Rightarrow> pyval option" where
  "example_json_loads t =
     (if t = example_downloader_text then Some example_downloader_report
      else if t = example_importer_text then Some example_importer_report
      else if t = ''[]'' then Some (PList [])
      else if t = ''{}'' then Some (PDict [])
      else None)"

text \<open>The downloader is recognised by its format flag; the importer writes its report
  to the path that follows \<open>-o\<close>.\<close>

definition example_spawn ::
  "int \<Rightarrow> string \<Rightarrow> int \<Rightarrow> string list \<Rightarrow> (string \<rightharpoonup> string) \<Rightarrow> fs \<Rightarrow> (completed \<times> fs) option" where
  "example_spawn dl_status dl_output imp_status cmd env fls =
     (if ''-fabo-standard'' \<in> set cmd
      then Some (\<lparr>returncode = dl_status, stdout = dl_output, stderr = []\<rparr>, fls)
      else if imp_status = 0
      then Some (\<lparr>returncode = 0, stdout = [], stderr = []\<rparr>,
                 fls(cmd ! 3 := Readable example_importer_text))
      else Some (\<lparr>returncode = imp_status, stdout = [], stderr = ''no connection''\<rparr>, fls))"

definition example_world :: "int \<Rightarrow> string \<Rightarrow> int \<Rightarrow> world" where
  "example_world dl_status dl_output imp_status =
     \<lparr>environ = [''HOME'' \<mapsto> ''/home/u''],
      expanduser = (\<lambda>p. ''/home/u'' @ tl p),
      json_loads = example_json_loads,
      now_iso = ''2025-09-15T10:00:00'',
      spawn = example_spawn dl_status dl_output imp_status,
      new_temp = (\<lambda>fls. Some ''/tmp/tmpq1.json''),
      make_dirs = (\<lambda>d fls. Some fls),
      stdout_writes = (\<lambda>c. True)\<rparr>"

text \<open>A world whose standard output is ASCII, and in which the importer writes the
  report \<open>{"message":"n\u00e3o"}\<close>: an ASCII text whose message, once parsed, holds
  the letter a with tilde (code point 227).\<close>

definition accented_report_text :: string where
  \<open>accented_report_text = ''{"message":"n'' @ [CHR 0x5C] @ ''u00e3o"}''\<close>

definition accented_report :: pyval where
  "accented_report = PDict [(''message'', PStr (''n'' @ [CHR 0xE3] @ ''o''))]"

definition ascii_stdout_world :: world where
  "ascii_stdout_world =
     (example_world 0 example_downloader_text 0)
       \<lparr>json_loads := (\<lambda>t. if t = accented_report_text then Some accented_report
                             else example_json_loads t),
         spawn := (\<lambda>cmd env fls.
                     if ''-fabo-standard'' \<in> set cmd
                     then Some (\<lparr>returncode = 0, stdout = example_downloader_text,
                                 stderr = []\<rparr>, fls)
                     else Some (\<lparr>returncode = 0, stdout = [], stderr = []\<rparr>,
                                fls(cmd ! 3 := Readable accented_report_text))),
         stdout_writes := (\<lambda>c. False)\<rparr>"

definition example_args :: "string \<Rightarrow> string \<Rightarrow> args" where
  "example_args url token =
     \<lparr>from_date = ''2025-09-01'', to_date = ''2025-09-15'', output_dir = ''statements'',
      pohoda_url = url, pohoda_token = token\<rparr>"

definition example_state :: state where
  "example_state = \<lparr>files = example_files, commands = [], printed = [], diagnostics = []\<rparr>"

section \<open>The environment loader refines its reference definition\<close>

lemma eq_not_space: "\<not> py_isspace CHR ''=''"
  by (simp add: py_isspace_def)

lemma strip_drop_ws: "list_all py_isspace a \<Longrightarrow> py_strip (a @ x) = py_strip x"
  by (simp add: py_strip_def list_all_iff)

lemma strip_app_ws:
  assumes "list_all py_isspace b"
  shows "py_strip (x @ b) = py_strip x"
proof (cases "list_all py_isspace x")
  case True
  with assms have e: "dropWhile py_isspace (x @ b) = []" "dropWhile py_isspace x = []"
    by (auto simp: list_all_iff)
  show ?thesis unfolding py_strip_def e by simp
next
  case False
  then obtain c where c: "c \<in> set x" "\<not> py_isspace c" by (auto simp: list_all_iff)
  then have 1: "dropWhile py_isspace (x @ b) = dropWhile py_isspace x @ b" by simp
  have 2: "dropWhile py_isspace (rev b @ y) = dropWhile py_isspace y" for y
    using assms by (intro dropWhile_append2) (simp add: list_all_iff)
  show ?thesis by (simp add: py_strip_def 1 2)
qed

lemma strip_decomp:
  "\<exists>a b. l = a @ py_strip l @ b \<and> list_all py_isspace a \<and> list_all py_isspace b"
proof -
  let ?d = "dropWhile py_isspace l"
  let ?b = "rev (takeWhile py_isspace (rev ?d))"
  have d: "?d = py_strip l @ ?b"
    unfolding py_strip_def by (metis rev_append rev_rev_ident takeWhile_dropWhile_id)
  have "l = takeWhile py_isspace l @ ?d" by simp
  with d have "l = takeWhile py_isspace l @ py_strip l @ ?b" by simp
  moreover have "list_all py_isspace (takeWhile py_isspace l)"
    by (auto simp: list_all_iff dest: set_takeWhileD)
  moreover have "list_all py_isspace ?b"
    by (auto simp: list_all_iff dest: set_takeWhileD)
  ultimately show ?thesis by blast
qed

lemma dropWhile_all_iff: "(\<forall>x\<in>set (dropWhile P l). P x) \<longleftrightarrow> (\<forall>x\<in>set l. P x)"
proof
  assume a: "\<forall>x\<in>set (dropWhile P l). P x"
  have "dropWhile P l = []"
  proof (rule ccontr)
    assume n: "dropWhile P l \<noteq> []"
    then have "\<not> P (hd (dropWhile P l))" by (rule hd_dropWhile)
    with a n show False by simp
  qed
  then show "\<forall>x\<in>set l. P x" by simp
next
  assume "\<forall>x\<in>set l. P x"
  then show "\<forall>x\<in>set (dropWhile P l). P x" by (auto dest: set_dropWhileD)
qed

lemma strip_Nil_iff: "py_strip l = [] \<longleftrightarrow> list_all py_isspace l"
  by (simp add: py_strip_def list_all_iff dropWhile_all_iff)

lemma hd_strip:
  assumes "py_strip l \<noteq> []"
  shows "hd (py_strip l) = hd (dropWhile py_isspace l)"
proof -
  let ?d = "dropWhile py_isspace l"
  have "?d = py_strip l @ rev (takeWhile py_isspace (rev ?d))"
    unfolding py_strip_def by (metis rev_append rev_rev_ident takeWhile_dropWhile_id)
  with assms show ?thesis by (metis hd_append2)
qed

lemma eq_in_strip: "CHR ''='' \<in> set (py_strip l) \<longleftrightarrow> CHR ''='' \<in> set l"
proof -
  obtain a b where l: "l = a @ py_strip l @ b" and a: "list_all py_isspace a"
    and b: "list_all py_isspace b"
    using strip_decomp by blast
  from a b have "CHR ''='' \<notin> set a" "CHR ''='' \<notin> set b"
    using eq_not_space by (auto simp: list_all_iff)
  then show ?thesis by (subst (2) l) simp
qed

lemma strip_key:
  assumes "CHR ''='' \<in> set l"
  shows "py_strip (takeWhile (\<lambda>c. c \<noteq> CHR ''='') (py_strip l)) =
         py_strip (takeWhile (\<lambda>c. c \<noteq> CHR ''='') l)"
proof -
  obtain a b where l: "l = a @ py_strip l @ b" and a: "list_all py_isspace a"
    and b: "list_all py_isspace b"
    using strip_decomp by blast
  let ?m = "py_strip l"
  from a have na: "\<forall>c\<in>set a. c \<noteq> CHR ''=''" using eq_not_space by (auto simp: list_all_iff)
  from assms have m: "CHR ''='' \<in> set ?m" by (simp add: eq_in_strip)
  have "takeWhile (\<lambda>c. c \<noteq> CHR ''='') (a @ ?m @ b) = a @ takeWhile (\<lambda>c. c \<noteq> CHR ''='') ?m"
    using na m by simp
  then have "takeWhile (\<lambda>c. c \<noteq> CHR ''='') l = a @ takeWhile (\<lambda>c. c \<noteq> CHR ''='') ?m"
    using l by simp
  then show ?thesis using a by (simp add: strip_drop_ws)
qed

lemma strip_value:
  assumes "CHR ''='' \<in> set l"
  shows "py_strip (tl (dropWhile (\<lambda>c. c \<noteq> CHR ''='') (py_strip l))) =
         py_strip (tl (dropWhile (\<lambda>c. c \<noteq> CHR ''='') l))"
proof -
  obtain a b where l: "l = a @ py_strip l @ b" and a: "list_all py_isspace a"
    and b: "list_all py_isspace b"
    using strip_decomp by blast
  let ?m = "py_strip l"
  from a have na: "\<forall>c\<in>set a. c \<noteq> CHR ''=''" using eq_not_space by (auto simp: list_all_iff)
  from assms have m: "CHR ''='' \<in> set ?m" by (simp add: eq_in_strip)
  then have ne: "dropWhile (\<lambda>c. c \<noteq> CHR ''='') ?m \<noteq> []" by auto
  have "dropWhile (\<lambda>c. c \<noteq> CHR ''='') (a @ ?m @ b) = dropWhile (\<lambda>c. c \<noteq> CHR ''='') ?m @ b"
    using na m by simp
  then have "dropWhile (\<lambda>c. c \<noteq> CHR ''='') l = dropWhile (\<lambda>c. c \<noteq> CHR ''='') ?m @ b"
    using l by simp
  then have "tl (dropWhile (\<lambda>c. c \<noteq> CHR ''='') l) = tl (dropWhile (\<lambda>c. c \<noteq> CHR ''='') ?m) @ b"
    using ne by simp
  then show ?thesis using b by (simp add: strip_app_ws)
qed

text \<open>One pass of the loop, read through the reference definition.\<close>

lemma load_env_step:
  "load_env_lines (raw # rest) m =
     (if spec_is_entry_line raw
      then load_env_lines rest (m(fst (spec_entry raw) \<mapsto> snd (spec_entry raw)))
      else load_env_lines rest m)"
proof (cases "py_strip raw = []")
  case True
  then show ?thesis by (simp add: spec_is_entry_line_def strip_Nil_iff)
next
  case False
  then have hd: "hd (py_strip raw) = hd (dropWhile py_isspace raw)" by (rule hd_strip)
  from False have sw: "py_startswith ''#'' (py_strip raw) \<longleftrightarrow> hd (py_strip raw) = CHR ''#''"
    by (cases "py_strip raw") (simp_all add: py_startswith_def)
  show ?thesis
    using False hd sw
    by (simp add: spec_is_entry_line_def spec_entry_def strip_Nil_iff eq_in_strip
        split_first_def strip_key strip_value Let_def)
qed

lemma upd_add_assoc: "m(k \<mapsto> v) ++ n = m ++ ([k \<mapsto> v] ++ n)"
  by (rule ext) (simp add: map_add_def split: option.splits)

lemma load_env_lines_spec:
  "load_env_lines ls m = m ++ map_of (rev (spec_env_entries ls))"
proof (induction ls arbitrary: m)
  case Nil
  show ?case by (simp add: spec_env_entries_def)
next
  case (Cons raw rest)
  show ?case
  proof (cases "spec_is_entry_line raw")
    case True
    let ?k = "fst (spec_entry raw)" and ?v = "snd (spec_entry raw)"
    have "load_env_lines (raw # rest) m = load_env_lines rest (m(?k \<mapsto> ?v))"
      using True by (simp only: load_env_step if_True)
    also have "\<dots> = m(?k \<mapsto> ?v) ++ map_of (rev (spec_env_entries rest))"
      by (rule Cons.IH)
    also have "\<dots> = m ++ ([?k \<mapsto> ?v] ++ map_of (rev (spec_env_entries rest)))"
      by (rule upd_add_assoc)
    also have "[?k \<mapsto> ?v] ++ map_of (rev (spec_env_entries rest)) =
               map_of (rev (spec_env_entries (raw # rest)))"
      using True by (simp add: spec_env_entries_def)
    finally show ?thesis .
  next
    case False
    then show ?thesis
      by (simp only: load_env_step if_False Cons.IH) (simp add: spec_env_entries_def)
  qed
qed

lemma graph_map_of_rev:
  assumes "distinct (map fst xs)"
  shows "Map.graph (map_of (rev xs)) = set xs"
proof -
  from assms have "distinct (map fst (rev xs))" by (simp add: rev_map [symmetric])
  then have "Map.graph (map_of (rev xs)) = set (rev xs)"
    by (auto simp: Map.graph_def dest: map_of_SomeD)
  then show ?thesis by simp
qed

lemma example_env_entries:
  "spec_env_entries (file_lines example_env_text) = [(''A'', ''1''), (''B'', ''x=y'')]"
  by (simp add: spec_env_entries_def file_lines_def example_env_text_def spec_is_entry_line_def
      spec_entry_def py_strip_def py_isspace_def)

section \<open>The environment loader\<close>

text \<open>
  C8, as the code has it. The loader returns the empty mapping for a file that does not
  exist. For a file that can be read, the mapping is the one built from the reference
  entries of its lines, in order, a later line replacing the entry of an earlier line
  with the same key: its keys are exactly the keys of the entry lines, and each key
  holds the value of the last entry line with that key. When the keys of the entry lines
  are pairwise different, the mapping holds exactly one entry per entry line.
\<close>

theorem load_env_file_last_entry_wins:
  "load_env_file fls p =
     (case fls p of
        Absent \<Rightarrow> Inr Map.empty
      | Unreadable \<Rightarrow> Inl OSError
      | Readable content \<Rightarrow> Inr (map_of (rev (spec_env_entries (file_lines content)))))
   \<and> (distinct (map fst (spec_env_entries ls)) \<longrightarrow>
        Map.graph (map_of (rev (spec_env_entries ls))) = set (spec_env_entries ls))"
  by (simp add: load_env_file_def load_env_lines_spec graph_map_of_rev split: file_state.splits)

theorem load_env_file_last_entry_wins_witness:
  "example_files ''.env'' = Readable example_env_text
   \<and> distinct (map fst (spec_env_entries (file_lines example_env_text)))
   \<and> load_env_file example_files ''.env'' = Inr (map_of [(''B'', ''x=y''), (''A'', ''1'')])
   \<and> Map.graph (map_of (rev (spec_env_entries (file_lines example_env_text))))
       = {(''A'', ''1''), (''B'', ''x=y'')}"
  using load_env_file_last_entry_wins
          [of example_files "''.env''" "file_lines example_env_text"]
  by (simp add: example_files_def example_env_entries)

text \<open>
  C8 as stated fails where two entry lines have the same key: the file with the lines
  \<open>A=1\<close> and \<open>A=2\<close> has two entry lines, and the mapping returned has the single
  entry \<open>A \<mapsto> 2\<close>; the entry of the first line is not in it.
\<close>

theorem load_env_file_duplicate_key_counterexample:
  "load_env_file ((\<lambda>p. Absent)(''.env'' := Readable (''A=1'' @ [CHR 0x0A] @ ''A=2''))) ''.env''
     = Inr [''A'' \<mapsto> ''2'']
   \<and> spec_env_entries (file_lines (''A=1'' @ [CHR 0x0A] @ ''A=2''))
       = [(''A'', ''1''), (''A'', ''2'')]
   \<and> (''A'', ''1'') \<notin> Map.graph [''A'' \<mapsto> ''2'']"
  by (simp add: load_env_file_def spec_env_entries_def file_lines_def spec_is_entry_line_def
      spec_entry_def py_strip_def py_isspace_def py_startswith_def split_first_def
      Map.graph_def)

section \<open>The adapters after the external process has run\<close>

lemma download_after_run:
  assumes "load_env_file (files s) ''.env'' = Inr loaded"
    and "spawn w (downloader_cmd w out_dir) (environ w ++ loaded) (files s)
           = Some (result, files')"
  shows "fst (download_statements w date_from date_to out_dir s) =
           (if returncode result \<noteq> 0 then (None, PNone)
            else (case json_loads w (stdout result) of
                    None \<Rightarrow> (None, PNone)
                  | Some report \<Rightarrow>
                      (case extract_files report of
                         Inl e \<Rightarrow> (None, PNone)
                       | Inr found \<Rightarrow>
                           if format_writes w (PList (map PStr found))
                           then (Some found, report) else (None, PNone))))"
  using assms
  by (simp add: download_statements_def Let_def split: option.splits sum.splits)

text \<open>The loop over the entries raises exactly when an entry is not a string; otherwise
  it appends, in order, what the search finds in each entry.\<close>

lemma collect_files_entries:
  "collect_files items found =
     (case str_entries items of
        None \<Rightarrow> Inl TypeError
      | Some entries \<Rightarrow> Inr (found @ List.map_filter re_search_processed entries))"
proof (induction items arbitrary: found rule: str_entries.induct)
  case 1
  show ?case by (simp add: List.map_filter_simps)
next
  case (2 e rest)
  show ?case
    by (cases "str_entries rest"; cases "re_search_processed e")
       (simp_all add: "2.IH" List.map_filter_simps)
qed simp_all

lemma list_repr_writes_strings:
  "list_repr_writes w (map PStr found) = list_all (repr_writes w) found"
  by (induction found) simp_all

lemma ascii_path_writes: "format_writes w (PList [PStr ''/tmp/a.abo''])"
  by (simp add: format_writes_def repr_writes_def repr_ascii_def)

lemma import_after_run:
  assumes "new_temp w (files s) = Some report_path"
    and "load_env_file ((files s)(report_path := Readable [])) ''.env'' = Inr loaded"
    and "spawn w (importer_cmd w report_path statement_file) (environ w ++ loaded)
           ((files s)(report_path := Readable [])) = Some (result, files')"
  shows "fst (import_statement_to_pohoda w statement_file url token s) =
           (if returncode result \<noteq> 0 then (PNone, None)
            else (case files' report_path of
                    Readable content \<Rightarrow>
                      (case json_loads w content of
                         Some r \<Rightarrow>
                           if format_writes w r then (r, Some report_path)
                           else (PNone, None)
                       | None \<Rightarrow> (PNone, None))
                  | Absent \<Rightarrow> (PNone, None)
                  | Unreadable \<Rightarrow> (PNone, None)))"
  using assms
  by (simp add: import_statement_to_pohoda_def Let_def
      split: option.splits sum.splits file_state.splits)

text \<open>The concrete world: the environment file loads, and what each tool is started
  with.\<close>

lemma example_env_loads:
  "load_env_file example_files ''.env''
     = Inr (load_env_lines (file_lines example_env_text) Map.empty)"
  by (simp add: load_env_file_def example_files_def)

lemma example_env_loads_temp:
  "load_env_file (example_files(''/tmp/tmpq1.json'' := Readable [])) ''.env''
     = Inr (load_env_lines (file_lines example_env_text) Map.empty)"
  by (simp add: load_env_file_def example_files_def)

lemma example_spawn_downloader:
  "spawn (example_world rc out irc) (downloader_cmd (example_world rc out irc) d) env fls
     = Some (\<lparr>returncode = rc, stdout = out, stderr = []\<rparr>, fls)"
  by (simp add: example_world_def example_spawn_def downloader_cmd_def)

lemma example_spawn_importer_ok:
  "spawn (example_world rc out 0)
      (importer_cmd (example_world rc out 0) ''/tmp/tmpq1.json'' [''/tmp/a.abo'']) env fls
     = Some (\<lparr>returncode = 0, stdout = [], stderr = []\<rparr>,
             fls(''/tmp/tmpq1.json'' := Readable example_importer_text))"
  by (simp add: example_world_def example_spawn_def importer_cmd_def)

lemma example_spawn_importer_fails:
  "irc \<noteq> 0 \<Longrightarrow>
   spawn (example_world rc out irc)
      (importer_cmd (example_world rc out irc) ''/tmp/tmpq1.json'' [''/tmp/a.abo'']) env fls
     = Some (\<lparr>returncode = irc, stdout = [], stderr = ''no connection''\<rparr>, fls)"
  by (simp add: example_world_def example_spawn_def importer_cmd_def)

lemma example_world_fields:
  "json_loads (example_world rc out irc) = example_json_loads"
  "new_temp (example_world rc out irc) fls = Some ''/tmp/tmpq1.json''"
  "make_dirs (example_world rc out irc) d fls = Some fls"
  "now_iso (example_world rc out irc) = ''2025-09-15T10:00:00''"
  "expanduser (example_world rc out irc) p = ''/home/u'' @ tl p"
  "stdout_writes (example_world rc out irc) c = True"
  by (simp_all add: example_world_def)

lemma example_json_loads_values:
  "example_json_loads example_downloader_text = Some example_downloader_report"
  "example_json_loads example_importer_text = Some example_importer_report"
  "example_json_loads ''[]'' = Some (PList [])"
  "example_json_loads ''{}'' = Some (PDict [])"
  by (simp_all add: example_json_loads_def example_downloader_text_def
      example_importer_text_def)

lemma example_state_fields:
  "files example_state = example_files"
  "commands example_state = []"
  "printed example_state = []"
  by (simp_all add: example_state_def)

lemma example_extract:
  "extract_files example_downloader_report = Inr [''/tmp/a.abo'']"
  by (simp add: extract_files_def example_downloader_report_def py_get_def py_iter_def
      match_processed_here_def)

lemma example_importer_report_writes: "format_writes w example_importer_report"
  by (simp add: format_writes_def example_importer_report_def repr_writes_def repr_ascii_def)

section \<open>The downloader adapter's results\<close>

text \<open>
  C4, as the code has it. When the downloader has exited with status zero and its output
  parses as JSON, the adapter returns the paths that the pattern extracts, in order and
  possibly none, together with the parsed report, exactly when
  \<^item> the report is an object,
  \<^item> its \<open>artifacts\<close> member (an empty object when the key is missing) is an object,
  \<^item> the \<open>processed_files\<close> member of that (an empty list when the key is missing) is
    a list, a string or an object, and every entry the loop visits (the items of the
    list, the characters of the string, the keys of the object) is a string, and
  \<^item> the line that lists the extracted paths can be written to standard output.
  In every other case it returns \<open>(None, None)\<close>.
\<close>

theorem download_statements_zero_exit_json:
  assumes "load_env_file (files s) ''.env'' = Inr loaded"
    and "spawn w (downloader_cmd w out_dir) (environ w ++ loaded) (files s)
           = Some (result, files')"
    and "returncode result = 0"
    and "json_loads w (stdout result) = Some report"
  shows "fst (download_statements w date_from date_to out_dir s) =
           (case py_get report ''artifacts'' (PDict []) of
              Inl e \<Rightarrow> (None, PNone)
            | Inr artifacts \<Rightarrow>
                (case py_get artifacts ''processed_files'' (PList []) of
                   Inl e \<Rightarrow> (None, PNone)
                 | Inr processed \<Rightarrow>
                     (case py_iter processed of
                        Inl e \<Rightarrow> (None, PNone)
                      | Inr items \<Rightarrow>
                          (case str_entries items of
                             None \<Rightarrow> (None, PNone)
                           | Some entries \<Rightarrow>
                               if list_all (repr_writes w)
                                    (List.map_filter re_search_processed entries)
                               then (Some (List.map_filter re_search_processed entries),
                                     report)
                               else (None, PNone)))))"
  using assms
  by (simp add: download_after_run extract_files_def collect_files_entries
      format_writes_def list_repr_writes_strings split: sum.splits option.splits)

theorem download_statements_zero_exit_json_witness:
  "load_env_file (files example_state) ''.env''
     = Inr (load_env_lines (file_lines example_env_text) Map.empty)
   \<and> returncode \<lparr>returncode = 0, stdout = example_downloader_text, stderr = []\<rparr> = 0
   \<and> json_loads (example_world 0 example_downloader_text 0) example_downloader_text
       = Some example_downloader_report
   \<and> fst (download_statements (example_world 0 example_downloader_text 0)
            ''2025-09-01'' ''2025-09-15'' ''statements'' example_state)
       = (Some [''/tmp/a.abo''], example_downloader_report)"
  using download_statements_zero_exit_json
          [of example_state "load_env_lines (file_lines example_env_text) Map.empty"
              "example_world 0 example_downloader_text 0" "''statements''"
              "\<lparr>returncode = 0, stdout = example_downloader_text, stderr = []\<rparr>"
              example_files example_downloader_report "''2025-09-01''" "''2025-09-15''"]
  by (simp add: example_state_fields example_env_loads example_spawn_downloader
      example_world_fields example_json_loads_values example_downloader_report_def
      py_get_def py_iter_def List.map_filter_simps match_processed_here_def
      repr_writes_def)

text \<open>
  C4 as stated fails when the output is JSON of another shape: the downloader exits
  with status zero and prints \<open>[]\<close>, which parses as the empty list; the adapter
  returns \<open>(None, None)\<close>.
\<close>

theorem download_statements_json_list_counterexample:
  "spawn (example_world 0 ''[]'' 0)
      (downloader_cmd (example_world 0 ''[]'' 0) ''statements'')
      (environ (example_world 0 ''[]'' 0) ++ load_env_lines (file_lines example_env_text) Map.empty)
      (files example_state)
     = Some (\<lparr>returncode = 0, stdout = ''[]'', stderr = []\<rparr>, example_files)
   \<and> json_loads (example_world 0 ''[]'' 0) ''[]'' = Some (PList [])
   \<and> fst (download_statements (example_world 0 ''[]'' 0)
            ''2025-09-01'' ''2025-09-15'' ''statements'' example_state)
       = (None, PNone)"
  by (simp add: download_after_run [OF example_env_loads [folded example_state_fields(1)]
                                      example_spawn_downloader]
      example_spawn_downloader example_state_fields example_world_fields
      example_json_loads_values extract_files_def py_get_def)

text \<open>
  C5. When the downloader has exited with status zero, has printed exactly the text
  \<open>{"artifacts":{"processed_files":["Processed /tmp/a.abo: ok"]}}\<close>, and
  \<open>json.loads\<close> reads that text as the object it denotes, the adapter returns the list
  with the single path \<open>/tmp/a.abo\<close> and that object.
\<close>

theorem download_statements_extraction_example:
  assumes "load_env_file (files s) ''.env'' = Inr loaded"
    and "spawn w (downloader_cmd w out_dir) (environ w ++ loaded) (files s)
           = Some (result, files')"
    and "returncode result = 0"
    and \<open>stdout result = ''{"artifacts":{"processed_files":["Processed /tmp/a.abo: ok"]}}''\<close>
    and \<open>json_loads w ''{"artifacts":{"processed_files":["Processed /tmp/a.abo: ok"]}}''
           = Some (PDict [(''artifacts'',
                     PDict [(''processed_files'',
                             PList [PStr ''Processed /tmp/a.abo: ok''])])])\<close>
  shows "fst (download_statements w date_from date_to out_dir s)
           = (Some [''/tmp/a.abo''],
              PDict [(''artifacts'',
                      PDict [(''processed_files'',
                              PList [PStr ''Processed /tmp/a.abo: ok''])])])"
  using assms example_extract ascii_path_writes
  by (simp add: download_after_run example_downloader_report_def)

theorem download_statements_extraction_example_witness:
  \<open>returncode \<lparr>returncode = 0, stdout = example_downloader_text, stderr = []\<rparr> = 0
   \<and> example_downloader_text = ''{"artifacts":{"processed_files":["Processed /tmp/a.abo: ok"]}}''
   \<and> fst (download_statements (example_world 0 example_downloader_text 0)
            ''2025-09-01'' ''2025-09-15'' ''statements'' example_state)
       = (Some [''/tmp/a.abo''],
          PDict [(''artifacts'',
                  PDict [(''processed_files'', PList [PStr ''Processed /tmp/a.abo: ok''])])])\<close>
  using download_statements_extraction_example
          [of example_state "load_env_lines (file_lines example_env_text) Map.empty"
              "example_world 0 example_downloader_text 0" "''statements''"
              "\<lparr>returncode = 0, stdout = example_downloader_text, stderr = []\<rparr>"
              example_files "''2025-09-01''" "''2025-09-15''"]
  by (simp add: example_state_fields example_env_loads example_spawn_downloader
      example_world_fields example_json_loads_def example_downloader_report_def
      example_downloader_text_def)

text \<open>
  C6. When the downloader has exited with a status other than zero, the adapter returns
  \<open>(None, None)\<close>: no file list and no report, whatever the process wrote to its
  standard output and standard error.
\<close>

theorem download_statements_nonzero_exit:
  assumes "load_env_file (files s) ''.env'' = Inr loaded"
    and "spawn w (downloader_cmd w out_dir) (environ w ++ loaded) (files s)
           = Some (\<lparr>returncode = rc, stdout = out, stderr = err\<rparr>, files')"
    and "rc \<noteq> 0"
  shows "fst (download_statements w date_from date_to out_dir s) = (None, PNone)"
  using assms by (simp add: download_after_run)

theorem download_statements_nonzero_exit_witness:
  "spawn (example_world 1 example_downloader_text 0)
      (downloader_cmd (example_world 1 example_downloader_text 0) ''statements'')
      (environ (example_world 1 example_downloader_text 0)
         ++ load_env_lines (file_lines example_env_text) Map.empty)
      (files example_state)
     = Some (\<lparr>returncode = 1, stdout = example_downloader_text, stderr = []\<rparr>, example_files)
   \<and> (1 :: int) \<noteq> 0
   \<and> fst (download_statements (example_world 1 example_downloader_text 0)
            ''2025-09-01'' ''2025-09-15'' ''statements'' example_state)
       = (None, PNone)"
  using download_statements_nonzero_exit
          [of example_state "load_env_lines (file_lines example_env_text) Map.empty"
              "example_world 1 example_downloader_text 0" "''statements''"
              1 example_downloader_text "[]" example_files "''2025-09-01''" "''2025-09-15''"]
  by (simp add: example_state_fields example_env_loads example_spawn_downloader)

section \<open>The importer adapter's results\<close>

text \<open>
  C7, as the code has it. When the importer has exited with status zero, the adapter's
  result is decided by the temporary report file as the process left it: if the file is
  absent, cannot be read, or does not parse as JSON, the adapter returns
  \<open>(None, None)\<close>; if it is there and parses, and the line that shows the report can be
  written to standard output, the adapter returns the parsed report and the path of the
  file; if that line cannot be written, the adapter returns \<open>(None, None)\<close>.
\<close>

theorem import_statement_zero_exit:
  assumes "new_temp w (files s) = Some report_path"
    and "load_env_file ((files s)(report_path := Readable [])) ''.env'' = Inr loaded"
    and "spawn w (importer_cmd w report_path statement_file) (environ w ++ loaded)
           ((files s)(report_path := Readable [])) = Some (result, files')"
    and "returncode result = 0"
  shows "fst (import_statement_to_pohoda w statement_file url token s) =
           (case files' report_path of
              Absent \<Rightarrow> (PNone, None)
            | Unreadable \<Rightarrow> (PNone, None)
            | Readable content \<Rightarrow>
                (case json_loads w content of
                   None \<Rightarrow> (PNone, None)
                 | Some importer_report \<Rightarrow>
                     if format_writes w importer_report
                     then (importer_report, Some report_path)
                     else (PNone, None)))"
  using assms by (simp add: import_after_run split: file_state.splits option.splits)

theorem import_statement_zero_exit_witness:
  "new_temp (example_world 0 example_downloader_text 0) (files example_state)
     = Some ''/tmp/tmpq1.json''
   \<and> returncode \<lparr>returncode = 0, stdout = [], stderr = []\<rparr> = 0
   \<and> format_writes (example_world 0 example_downloader_text 0) example_importer_report
   \<and> fst (import_statement_to_pohoda (example_world 0 example_downloader_text 0)
            [''/tmp/a.abo''] ''https://pohoda.example'' ''secret'' example_state)
       = (example_importer_report, Some ''/tmp/tmpq1.json'')"
  using import_statement_zero_exit
          [of "example_world 0 example_downloader_text 0" example_state "''/tmp/tmpq1.json''"
              "load_env_lines (file_lines example_env_text) Map.empty" "[''/tmp/a.abo'']"
              "\<lparr>returncode = 0, stdout = [], stderr = []\<rparr>"
              "example_files(''/tmp/tmpq1.json'' := Readable [],
                             ''/tmp/tmpq1.json'' := Readable example_importer_text)"
              "''https://pohoda.example''" "''secret''"]
  by (simp add: example_state_fields example_env_loads_temp example_spawn_importer_ok
      example_world_fields example_json_loads_values example_importer_report_writes)

text \<open>
  C7 as stated fails when the report cannot be printed: standard output is ASCII, the
  importer exits with status zero and leaves the report file
  \<open>{"message":"n\u00e3o"}\<close>, which parses as the object whose message holds the
  letter a with tilde (code point 227); the file is there and parses, and the adapter
  returns \<open>(None, None)\<close>.
\<close>

theorem import_statement_unprintable_report_counterexample:
  "spawn ascii_stdout_world
      (importer_cmd ascii_stdout_world ''/tmp/tmpq1.json'' [''/tmp/a.abo''])
      (environ ascii_stdout_world ++ load_env_lines (file_lines example_env_text) Map.empty)
      (example_files(''/tmp/tmpq1.json'' := Readable []))
     = Some (\<lparr>returncode = 0, stdout = [], stderr = []\<rparr>,
             example_files(''/tmp/tmpq1.json'' := Readable accented_report_text))
   \<and> json_loads ascii_stdout_world accented_report_text = Some accented_report
   \<and> fst (import_statement_to_pohoda ascii_stdout_world
            [''/tmp/a.abo''] ''https://pohoda.example'' ''secret'' example_state)
       = (PNone, None)"
proof -
  have tmp: "new_temp ascii_stdout_world (files example_state) = Some ''/tmp/tmpq1.json''"
    by (simp add: ascii_stdout_world_def example_world_def)
  have env: "load_env_file ((files example_state)(''/tmp/tmpq1.json'' := Readable [])) ''.env''
               = Inr (load_env_lines (file_lines example_env_text) Map.empty)"
    by (simp add: example_state_fields example_env_loads_temp)
  have run: "spawn ascii_stdout_world
               (importer_cmd ascii_stdout_world ''/tmp/tmpq1.json'' [''/tmp/a.abo''])
               (environ ascii_stdout_world
                  ++ load_env_lines (file_lines example_env_text) Map.empty)
               ((files example_state)(''/tmp/tmpq1.json'' := Readable []))
             = Some (\<lparr>returncode = 0, stdout = [], stderr = []\<rparr>,
                     example_files(''/tmp/tmpq1.json'' := Readable accented_report_text))"
    by (simp add: ascii_stdout_world_def example_world_def importer_cmd_def
        example_state_fields)
  have js: "json_loads ascii_stdout_world accented_report_text = Some accented_report"
    by (simp add: ascii_stdout_world_def example_world_def)
  have pr: "\<not> format_writes ascii_stdout_world accented_report"
    by (simp add: format_writes_def accented_report_def repr_writes_def repr_ascii_def
        ascii_stdout_world_def example_world_def)
  show ?thesis
    using run js pr
    by (simp add: import_after_run [OF tmp env run] example_state_fields)
qed

text \<open>
  C9. The accounting-system URL and the access token have no effect on the importer
  adapter: two calls that differ only in them return the same result and leave the same
  state, which holds the commands started, what was printed and the files. When the
  temporary file has been created and the environment file has loaded, the one command
  the adapter starts is the importer's with the report path and the statement files; the
  URL and the token are no part of it.
\<close>

theorem import_statement_ignores_credentials:
  "import_statement_to_pohoda w statement_file url1 token1 s
     = import_statement_to_pohoda w statement_file url2 token2 s
   \<and> (new_temp w (files s) = Some report_path \<longrightarrow>
      load_env_file ((files s)(report_path := Readable [])) ''.env'' = Inr loaded \<longrightarrow>
      commands (snd (import_statement_to_pohoda w statement_file url1 token1 s))
        = commands s @ [importer_cmd w report_path statement_file])"
  by (simp add: import_statement_to_pohoda_def Let_def say_def complain_def
      split: option.splits sum.splits file_state.splits if_splits)

theorem import_statement_ignores_credentials_witness:
  "new_temp (example_world 0 example_downloader_text 0) (files example_state)
     = Some ''/tmp/tmpq1.json''
   \<and> import_statement_to_pohoda (example_world 0 example_downloader_text 0)
        [''/tmp/a.abo''] ''https://pohoda.example'' ''secret'' example_state
     = import_statement_to_pohoda (example_world 0 example_downloader_text 0)
        [''/tmp/a.abo''] ''https://other.example'' ''other'' example_state
   \<and> commands (snd (import_statement_to_pohoda (example_world 0 example_downloader_text 0)
                      [''/tmp/a.abo''] ''https://pohoda.example'' ''secret'' example_state))
     = [[''php'', ''/home/u/Projects/SpojeNetIT/pohoda-abo-importer/src/importer.php'',
         ''-o'', ''/tmp/tmpq1.json'', ''/tmp/a.abo'']]"
  using import_statement_ignores_credentials
          [of "example_world 0 example_downloader_text 0" "[''/tmp/a.abo'']"
              "''https://pohoda.example''" "''secret''" example_state
              "''https://other.example''" "''other''" "''/tmp/tmpq1.json''"
              "load_env_lines (file_lines example_env_text) Map.empty"]
  by (auto simp add: example_state_fields example_env_loads_temp example_world_fields
      importer_cmd_def)

section \<open>What the orchestrator can receive from the downloader adapter\<close>

lemma download_result_extracted:
  "fst (download_statements w date_from date_to out_dir s) = (Some fl, report)
   \<Longrightarrow> extract_files report = Inr fl"
  by (auto simp: download_statements_def Let_def
      split: option.splits sum.splits if_splits prod.splits)

lemma download_failure_no_report:
  "fst (fst (download_statements w date_from date_to out_dir s)) = None
   \<Longrightarrow> snd (fst (download_statements w date_from date_to out_dir s)) = PNone"
  by (auto simp: download_statements_def Let_def
      split: option.splits sum.splits if_splits prod.splits)

lemma extract_files_empty_dict: "extract_files (PDict []) = Inr []"
  by (simp add: extract_files_def py_get_def py_iter_def)

lemma extract_files_truthy:
  assumes "extract_files report = Inr fl" and "fl \<noteq> []"
  shows "py_truthy report"
proof (cases report)
  case (PDict kvs)
  with assms show ?thesis by (cases kvs) (auto simp: extract_files_empty_dict)
qed (use assms in \<open>simp_all add: extract_files_def py_get_def\<close>)

lemma download_files_report_truthy:
  "fst (download_statements w date_from date_to out_dir s) = (Some fl, report)
   \<Longrightarrow> fl \<noteq> [] \<Longrightarrow> py_truthy report"
  by (blast intro: extract_files_truthy dest: download_result_extracted)

lemma final_report_say: "final_report (say (Report r) s) = Some r"
  by (simp add: final_report_def say_def)

text \<open>The three ways \<open>main\<close> ends once the output directory exists.\<close>

lemma main_no_files:
  assumes "make_dirs w (output_dir a) (files s) = Some files0"
    and "py_not_files
           (fst (fst (download_statements w (from_date a) (to_date a) (output_dir a)
                        (s\<lparr>files := files0\<rparr>))))"
  shows "main w a s =
           (SysExit 1,
            say (Report (error_report ''Failed to download statement(s).''
                           (snd (fst (download_statements w (from_date a) (to_date a)
                                        (output_dir a) (s\<lparr>files := files0\<rparr>))))
                           (initial_report w)))
              (snd (download_statements w (from_date a) (to_date a) (output_dir a)
                      (s\<lparr>files := files0\<rparr>))))"
  using assms by (simp add: main_def split_beta)

lemma main_import_falsy:
  assumes "make_dirs w (output_dir a) (files s) = Some files0"
    and "fst (download_statements w (from_date a) (to_date a) (output_dir a)
                (s\<lparr>files := files0\<rparr>)) = (Some fl, downloader_report)"
    and "fl \<noteq> []"
    and "\<not> py_truthy
             (fst (fst (import_statement_to_pohoda w fl (pohoda_url a) (pohoda_token a)
                          (snd (download_statements w (from_date a) (to_date a)
                                  (output_dir a) (s\<lparr>files := files0\<rparr>))))))"
  shows "main w a s =
           (SysExit 2,
            say (Report (error_report ''Failed to import statement(s) to Pohoda.''
                           downloader_report
                           [(''timestamp'', PStr (now_iso w)),
                            (''artifacts'', PDict [(''imported_statement'', PList (map PStr fl))]),
                            (''metrics'', PDict [])]))
              (snd (import_statement_to_pohoda w fl (pohoda_url a) (pohoda_token a)
                      (snd (download_statements w (from_date a) (to_date a)
                              (output_dir a) (s\<lparr>files := files0\<rparr>))))))"
  using assms
  by (simp add: main_def split_beta set_nested_def initial_report_def)

lemma main_import_truthy:
  assumes "make_dirs w (output_dir a) (files s) = Some files0"
    and "fst (download_statements w (from_date a) (to_date a) (output_dir a)
                (s\<lparr>files := files0\<rparr>)) = (Some fl, downloader_report)"
    and "fl \<noteq> []"
    and "fst (import_statement_to_pohoda w fl (pohoda_url a) (pohoda_token a)
                (snd (download_statements w (from_date a) (to_date a)
                        (output_dir a) (s\<lparr>files := files0\<rparr>))))
           = (importer_report, path)"
    and "py_truthy importer_report"
  shows "main w a s =
           (case merge_reports importer_report downloader_report
                   [(''timestamp'', PStr (now_iso w)),
                    (''artifacts'', PDict [(''imported_statement'', PList (map PStr fl))]),
                    (''metrics'', PDict [])] of
              Inl e \<Rightarrow>
                (Uncaught e,
                 snd (import_statement_to_pohoda w fl (pohoda_url a) (pohoda_token a)
                        (snd (download_statements w (from_date a) (to_date a)
                                (output_dir a) (s\<lparr>files := files0\<rparr>)))))
            | Inr report' \<Rightarrow>
                (Returned,
                 say (Report report')
                   (snd (import_statement_to_pohoda w fl (pohoda_url a) (pohoda_token a)
                           (snd (download_statements w (from_date a) (to_date a)
                                   (output_dir a) (s\<lparr>files := files0\<rparr>)))))))"
  using assms
  by (simp add: main_def split_beta set_nested_def initial_report_def)

lemma example_args_fields:
  "from_date (example_args u t) = ''2025-09-01''"
  "to_date (example_args u t) = ''2025-09-15''"
  "output_dir (example_args u t) = ''statements''"
  "pohoda_url (example_args u t) = u"
  "pohoda_token (example_args u t) = t"
  by (simp_all add: example_args_def)

lemma example_download:
  "download_statements (example_world 0 example_downloader_text irc)
      ''2025-09-01'' ''2025-09-15'' ''statements'' example_state
     = ((Some [''/tmp/a.abo''], example_downloader_report),
        example_state
          \<lparr>commands := [downloader_cmd (example_world 0 example_downloader_text irc)
                           ''statements''],
            printed := [Downloaded [''/tmp/a.abo'']]\<rparr>)"
  by (simp add: download_statements_def Let_def example_state_fields example_env_loads
      example_spawn_downloader example_world_fields example_json_loads_values
      example_extract ascii_path_writes say_def example_state_def)

lemma example_state_files_same: "example_state\<lparr>files := example_files\<rparr> = example_state"
  by (simp add: example_state_def)

lemma example_download_fails:
  "rc \<noteq> 0 \<Longrightarrow>
   download_statements (example_world rc out irc)
      ''2025-09-01'' ''2025-09-15'' ''statements'' example_state
     = ((None, PNone),
        example_state
          \<lparr>commands := [downloader_cmd (example_world rc out irc) ''statements''],
            diagnostics := [ErrDownloading []]\<rparr>)"
  by (simp add: download_statements_def Let_def example_state_fields example_env_loads
      example_spawn_downloader complain_def example_state_def)

lemma example_import_ok:
  assumes "files s = example_files"
  shows "fst (import_statement_to_pohoda (example_world rc out 0) [''/tmp/a.abo''] u t s)
           = (example_importer_report, Some ''/tmp/tmpq1.json'')"
  using import_after_run
          [of "example_world rc out 0" s "''/tmp/tmpq1.json''"
              "load_env_lines (file_lines example_env_text) Map.empty" "[''/tmp/a.abo'']"
              "\<lparr>returncode = 0, stdout = [], stderr = []\<rparr>"
              "example_files(''/tmp/tmpq1.json'' := Readable [],
                             ''/tmp/tmpq1.json'' := Readable example_importer_text)" u t]
  by (simp add: assms example_world_fields example_env_loads_temp example_spawn_importer_ok
      example_json_loads_values example_importer_report_writes)

lemma example_import_fails:
  assumes "files s = example_files" and "irc \<noteq> 0"
  shows "fst (import_statement_to_pohoda (example_world rc out irc) [''/tmp/a.abo''] u t s)
           = (PNone, None)"
  using import_after_run
          [of "example_world rc out irc" s "''/tmp/tmpq1.json''"
              "load_env_lines (file_lines example_env_text) Map.empty" "[''/tmp/a.abo'']"
              "\<lparr>returncode = irc, stdout = [], stderr = ''no connection''\<rparr>"
              "example_files(''/tmp/tmpq1.json'' := Readable [])" u t]
  by (simp add: assms example_world_fields example_env_loads_temp example_spawn_importer_fails)

section \<open>The orchestrator's three outcomes\<close>

text \<open>
  C1. When the output directory exists, the downloader adapter returns a non-empty file
  list, and the importer adapter returns the report
  \<open>{"status":"success","message":"done"}\<close>, then \<open>main\<close> returns, so the process
  exits with code 0, and the last thing printed is a report whose \<open>status\<close> is
  \<open>success\<close>, whose \<open>message\<close> is \<open>done\<close>, and whose \<open>artifacts\<close> hold the
  downloaded file list under \<open>imported_statement\<close> and the importer's report under
  \<open>importer_report\<close>.
\<close>

theorem main_success_report:
  assumes "make_dirs w (output_dir a) (files s) = Some files0"
    and "fst (download_statements w (from_date a) (to_date a) (output_dir a)
                (s\<lparr>files := files0\<rparr>)) = (Some fl, downloader_report)"
    and "fl \<noteq> []"
    and "fst (import_statement_to_pohoda w fl (pohoda_url a) (pohoda_token a)
                (snd (download_statements w (from_date a) (to_date a)
                        (output_dir a) (s\<lparr>files := files0\<rparr>))))
           = (PDict [(''status'', PStr ''success''), (''message'', PStr ''done'')], path)"
  shows "fst (main w a s) = Returned
       \<and> exit_code (fst (main w a s)) = 0
       \<and> printed_field ''status'' (snd (main w a s)) = Some (PStr ''success'')
       \<and> printed_field ''message'' (snd (main w a s)) = Some (PStr ''done'')
       \<and> printed_artifact ''imported_statement'' (snd (main w a s))
           = Some (PList (map PStr fl))
       \<and> printed_artifact ''importer_report'' (snd (main w a s))
           = Some (PDict [(''status'', PStr ''success''), (''message'', PStr ''done'')])"
proof -
  have t: "py_truthy (PDict [(''status'', PStr ''success''), (''message'', PStr ''done'')])"
    by simp
  show ?thesis
    by (simp add: main_import_truthy [OF assms t] merge_reports_def py_get_def
        set_nested_def printed_field_def printed_artifact_def final_report_say
        field_def artifact_def)
qed

theorem main_success_report_witness:
  "make_dirs (example_world 0 example_downloader_text 0) ''statements'' (files example_state)
     = Some example_files
   \<and> [''/tmp/a.abo''] \<noteq> []
   \<and> fst (main (example_world 0 example_downloader_text 0)
            (example_args ''https://pohoda.example'' ''secret'') example_state) = Returned
   \<and> printed_field ''status''
        (snd (main (example_world 0 example_downloader_text 0)
                (example_args ''https://pohoda.example'' ''secret'') example_state))
       = Some (PStr ''success'')
   \<and> printed_artifact ''imported_statement''
        (snd (main (example_world 0 example_downloader_text 0)
                (example_args ''https://pohoda.example'' ''secret'') example_state))
       = Some (PList [PStr ''/tmp/a.abo''])"
proof -
  let ?w = "example_world 0 example_downloader_text 0"
  let ?a = "example_args ''https://pohoda.example'' ''secret''"
  let ?d = "download_statements ?w (from_date ?a) (to_date ?a) (output_dir ?a)
              (example_state\<lparr>files := example_files\<rparr>)"
  have mk: "make_dirs ?w (output_dir ?a) (files example_state) = Some example_files"
    by (simp add: example_world_fields example_state_fields)
  have dl: "fst ?d = (Some [''/tmp/a.abo''], example_downloader_report)"
    by (simp add: example_args_fields example_state_files_same example_download)
  have ne: "[''/tmp/a.abo''] \<noteq> []" by simp
  have "files (snd ?d) = example_files"
    by (simp add: example_args_fields example_state_files_same example_download
        example_state_fields)
  then have imp: "fst (import_statement_to_pohoda ?w [''/tmp/a.abo''] (pohoda_url ?a)
                         (pohoda_token ?a) (snd ?d))
                    = (PDict [(''status'', PStr ''success''), (''message'', PStr ''done'')],
                       Some ''/tmp/tmpq1.json'')"
    by (simp add: example_import_ok example_importer_report_def)
  from main_success_report [OF mk dl ne imp] show ?thesis
    by (simp add: example_world_fields example_state_fields)
qed

text \<open>
  What the import-failure branch of \<open>main\<close> prints, for every run that reaches it.
\<close>

lemma main_import_failure_branch:
  assumes "make_dirs w (output_dir a) (files s) = Some files0"
    and "fst (download_statements w (from_date a) (to_date a) (output_dir a)
                (s\<lparr>files := files0\<rparr>)) = (Some fl, downloader_report)"
    and "fl \<noteq> []"
    and "fst (import_statement_to_pohoda w fl (pohoda_url a) (pohoda_token a)
                (snd (download_statements w (from_date a) (to_date a)
                        (output_dir a) (s\<lparr>files := files0\<rparr>))))
           = (PNone, None)"
  shows "fst (main w a s) = SysExit 2
       \<and> exit_code (fst (main w a s)) = 2
       \<and> printed_field ''status'' (snd (main w a s)) = Some (PStr ''error'')
       \<and> printed_field ''message'' (snd (main w a s))
           = Some (PStr ''Failed to import statement(s) to Pohoda.'')
       \<and> printed_field ''downloader_report'' (snd (main w a s)) = Some downloader_report
       \<and> printed_artifact ''downloader_report'' (snd (main w a s)) = None
       \<and> printed_artifact ''imported_statement'' (snd (main w a s))
           = Some (PList (map PStr fl))"
proof -
  have t: "py_truthy downloader_report"
    using assms(2,3) by (rule download_files_report_truthy)
  have f: "\<not> py_truthy
               (fst (fst (import_statement_to_pohoda w fl (pohoda_url a) (pohoda_token a)
                            (snd (download_statements w (from_date a) (to_date a)
                                    (output_dir a) (s\<lparr>files := files0\<rparr>))))))"
    by (simp add: assms(4))
  show ?thesis
    by (simp add: main_import_falsy [OF assms(1-3) f] error_report_def
        attach_downloader_report_def t printed_field_def printed_artifact_def
        final_report_say field_def artifact_def)
qed

text \<open>
  C2 does not hold of the code. In the run where the downloader prints its report for
  one file and the importer exits with status 1, the downloader adapter returns the
  file list with the parsed report, the importer adapter returns \<open>(None, None)\<close>, and
  the process exits with code 2; the printed report has no \<open>downloader_report\<close> under
  \<open>artifacts\<close>: the error branch stores the downloader's report under a top-level key
  of that name, where the success branch of the same function stores it under
  \<open>artifacts\<close>.
\<close>

theorem main_import_failure_report_placement:
  "fst (download_statements (example_world 0 example_downloader_text 1)
          ''2025-09-01'' ''2025-09-15'' ''statements'' example_state)
     = (Some [''/tmp/a.abo''], example_downloader_report)
   \<and> fst (import_statement_to_pohoda (example_world 0 example_downloader_text 1)
            [''/tmp/a.abo''] ''https://pohoda.example'' ''secret''
            (snd (download_statements (example_world 0 example_downloader_text 1)
                    ''2025-09-01'' ''2025-09-15'' ''statements'' example_state)))
       = (PNone, None)
   \<and> exit_code (fst (main (example_world 0 example_downloader_text 1)
                       (example_args ''https://pohoda.example'' ''secret'') example_state))
       = 2
   \<and> printed_artifact ''downloader_report''
        (snd (main (example_world 0 example_downloader_text 1)
                (example_args ''https://pohoda.example'' ''secret'') example_state))
       = None
   \<and> printed_field ''downloader_report''
        (snd (main (example_world 0 example_downloader_text 1)
                (example_args ''https://pohoda.example'' ''secret'') example_state))
       = Some example_downloader_report"
proof -
  let ?w = "example_world 0 example_downloader_text 1"
  let ?a = "example_args ''https://pohoda.example'' ''secret''"
  let ?d = "download_statements ?w ''2025-09-01'' ''2025-09-15'' ''statements'' example_state"
  have dl: "fst ?d = (Some [''/tmp/a.abo''], example_downloader_report)"
    by (simp add: example_download)
  have "files (snd ?d) = example_files"
    by (simp add: example_download example_state_fields)
  then have imp: "fst (import_statement_to_pohoda ?w [''/tmp/a.abo'']
                         ''https://pohoda.example'' ''secret'' (snd ?d)) = (PNone, None)"
    by (simp add: example_import_fails)
  have mk: "make_dirs ?w (output_dir ?a) (files example_state) = Some example_files"
    by (simp add: example_world_fields example_state_fields)
  have "main ?w ?a example_state =
          (SysExit 2,
           say (Report (error_report ''Failed to import statement(s) to Pohoda.''
                          example_downloader_report
                          [(''timestamp'', PStr (now_iso ?w)),
                           (''artifacts'',
                            PDict [(''imported_statement'', PList (map PStr [''/tmp/a.abo'']))]),
                           (''metrics'', PDict [])]))
             (snd (import_statement_to_pohoda ?w [''/tmp/a.abo''] ''https://pohoda.example''
                     ''secret'' (snd ?d))))"
    using main_import_falsy
            [of ?w ?a example_state example_files "[''/tmp/a.abo'']" example_downloader_report]
          mk dl imp
    by (simp add: example_args_fields example_state_files_same)
  then show ?thesis
    using dl imp
    by (simp add: error_report_def attach_downloader_report_def
        example_downloader_report_def printed_artifact_def printed_field_def
        final_report_say artifact_def field_def)
qed

text \<open>
  C3. When the output directory exists and the downloader adapter returns no file list,
  the process exits with code 1 and the last thing printed is a report whose \<open>status\<close>
  is \<open>error\<close>, whose \<open>message\<close> is \<open>Failed to download statement(s).\<close>, and in
  which the key \<open>importer_report\<close> occurs at no depth. The importer adapter is not
  called: the state at the end is the state the downloader adapter left, with that
  report printed; no command has been started since, no file changed, nothing else
  printed.
\<close>

theorem main_download_failure_report:
  assumes "make_dirs w (output_dir a) (files s) = Some files0"
    and "fst (fst (download_statements w (from_date a) (to_date a) (output_dir a)
                     (s\<lparr>files := files0\<rparr>))) = None"
  shows "fst (main w a s) = SysExit 1
       \<and> exit_code (fst (main w a s)) = 1
       \<and> printed_field ''status'' (snd (main w a s)) = Some (PStr ''error'')
       \<and> printed_field ''message'' (snd (main w a s))
           = Some (PStr ''Failed to download statement(s).'')
       \<and> \<not> printed_has_key ''importer_report'' (snd (main w a s))
       \<and> snd (main w a s) =
           say (Report [(''timestamp'', PStr (now_iso w)),
                        (''artifacts'', PDict []),
                        (''metrics'', PDict []),
                        (''status'', PStr ''error''),
                        (''message'', PStr ''Failed to download statement(s).'')])
             (snd (download_statements w (from_date a) (to_date a) (output_dir a)
                     (s\<lparr>files := files0\<rparr>)))"
proof -
  have n: "py_not_files
             (fst (fst (download_statements w (from_date a) (to_date a) (output_dir a)
                          (s\<lparr>files := files0\<rparr>))))"
    by (simp add: assms(2))
  have r: "snd (fst (download_statements w (from_date a) (to_date a) (output_dir a)
                       (s\<lparr>files := files0\<rparr>))) = PNone"
    using assms(2) by (rule download_failure_no_report)
  show ?thesis
    by (simp add: main_no_files [OF assms(1) n] r error_report_def
        attach_downloader_report_def initial_report_def printed_field_def
        printed_has_key_def final_report_say field_def)
qed

theorem main_download_failure_report_witness:
  "make_dirs (example_world 1 example_downloader_text 0) ''statements'' (files example_state)
     = Some example_files
   \<and> fst (fst (download_statements (example_world 1 example_downloader_text 0)
                 ''2025-09-01'' ''2025-09-15'' ''statements'' example_state)) = None
   \<and> fst (main (example_world 1 example_downloader_text 0)
            (example_args ''https://pohoda.example'' ''secret'') example_state) = SysExit 1
   \<and> commands (snd (main (example_world 1 example_downloader_text 0)
                      (example_args ''https://pohoda.example'' ''secret'') example_state))
       = [downloader_cmd (example_world 1 example_downloader_text 0) ''statements'']"
proof -
  let ?w = "example_world 1 example_downloader_text 0"
  let ?a = "example_args ''https://pohoda.example'' ''secret''"
  let ?d = "download_statements ?w (from_date ?a) (to_date ?a) (output_dir ?a)
              (example_state\<lparr>files := example_files\<rparr>)"
  have mk: "make_dirs ?w (output_dir ?a) (files example_state) = Some example_files"
    by (simp add: example_world_fields example_state_fields)
  have d: "?d = ((None, PNone),
                 example_state\<lparr>commands := [downloader_cmd ?w ''statements''],
                               diagnostics := [ErrDownloading []]\<rparr>)"
    by (simp add: example_args_fields example_state_files_same example_download_fails)
  then have dl: "fst (fst ?d) = None" by simp
  from main_download_failure_report [OF mk dl] show ?thesis
    using d
    by (simp add: example_args_fields example_state_files_same example_world_fields
        example_state_fields say_def)
qed

text \<open>
  C10. When the output directory exists, the downloader has exited with status zero and
  its output parses as a report from which no file path is extracted, the adapter
  returns the empty list with the report, not its failure signal; the orchestrator's
  test \<open>not statement_files\<close> is true of the empty list as it is of \<open>None\<close>, so the
  process exits with code 1 and the last thing printed is a report whose \<open>status\<close> is
  \<open>error\<close> and whose \<open>message\<close> is \<open>Failed to download statement(s).\<close>. The importer
  adapter is not called: the state at the end is the state the downloader adapter left,
  with that report printed.
\<close>

theorem main_empty_file_list_is_download_failure:
  assumes "make_dirs w (output_dir a) (files s) = Some files0"
    and "load_env_file files0 ''.env'' = Inr loaded"
    and "spawn w (downloader_cmd w (output_dir a)) (environ w ++ loaded) files0
           = Some (result, files')"
    and "returncode result = 0"
    and "json_loads w (stdout result) = Some report"
    and "extract_files report = Inr []"
  shows "fst (download_statements w (from_date a) (to_date a) (output_dir a)
                (s\<lparr>files := files0\<rparr>)) = (Some [], report)
       \<and> py_not_files (Some []) = py_not_files None
       \<and> fst (main w a s) = SysExit 1
       \<and> exit_code (fst (main w a s)) = 1
       \<and> printed_field ''status'' (snd (main w a s)) = Some (PStr ''error'')
       \<and> printed_field ''message'' (snd (main w a s))
           = Some (PStr ''Failed to download statement(s).'')
       \<and> snd (main w a s) =
           say (Report (error_report ''Failed to download statement(s).'' report
                          (initial_report w)))
             (snd (download_statements w (from_date a) (to_date a) (output_dir a)
                     (s\<lparr>files := files0\<rparr>)))"
proof -
  let ?d = "download_statements w (from_date a) (to_date a) (output_dir a)
              (s\<lparr>files := files0\<rparr>)"
  have d: "fst ?d = (Some [], report)"
    using assms(2-6)
    by (simp add: download_after_run [of "s\<lparr>files := files0\<rparr>" loaded w "output_dir a"
                                          result files'] format_writes_def)
  then have n: "py_not_files (fst (fst ?d))" by simp
  have "AList.update ''downloader_report'' v
          [(''timestamp'', t), (''artifacts'', x), (''metrics'', y),
           (''status'', PStr ''error''), (''message'', m)]
        = [(''timestamp'', t), (''artifacts'', x), (''metrics'', y),
           (''status'', PStr ''error''), (''message'', m), (''downloader_report'', v)]"
    for v t x y m
    by simp
  then show ?thesis
    using d
    by (simp add: main_no_files [OF assms(1) n] error_report_def
        attach_downloader_report_def initial_report_def printed_field_def
        final_report_say field_def)
qed

theorem main_empty_file_list_is_download_failure_witness:
  "make_dirs (example_world 0 ''{}'' 0) ''statements'' (files example_state)
     = Some example_files
   \<and> returncode \<lparr>returncode = 0, stdout = ''{}'', stderr = []\<rparr> = 0
   \<and> json_loads (example_world 0 ''{}'' 0) ''{}'' = Some (PDict [])
   \<and> extract_files (PDict []) = Inr []
   \<and> fst (download_statements (example_world 0 ''{}'' 0)
            ''2025-09-01'' ''2025-09-15'' ''statements'' example_state) = (Some [], PDict [])
   \<and> fst (main (example_world 0 ''{}'' 0)
            (example_args ''https://pohoda.example'' ''secret'') example_state) = SysExit 1
   \<and> printed_field ''message''
        (snd (main (example_world 0 ''{}'' 0)
                (example_args ''https://pohoda.example'' ''secret'') example_state))
       = Some (PStr ''Failed to download statement(s).'')"
proof -
  let ?w = "example_world 0 ''{}'' 0"
  let ?a = "example_args ''https://pohoda.example'' ''secret''"
  have mk: "make_dirs ?w (output_dir ?a) (files example_state) = Some example_files"
    by (simp add: example_world_fields example_state_fields)
  have run: "spawn ?w (downloader_cmd ?w (output_dir ?a))
               (environ ?w ++ load_env_lines (file_lines example_env_text) Map.empty)
               example_files
             = Some (\<lparr>returncode = 0, stdout = ''{}'', stderr = []\<rparr>, example_files)"
    by (rule example_spawn_downloader)
  have rc: "returncode \<lparr>returncode = 0, stdout = ''{}'', stderr = []\<rparr> = 0" by simp
  have js: "json_loads ?w (stdout \<lparr>returncode = 0, stdout = ''{}'', stderr = []\<rparr>)
              = Some (PDict [])"
    by (simp add: example_world_fields example_json_loads_values)
  from main_empty_file_list_is_download_failure
         [OF mk example_env_loads run rc js extract_files_empty_dict]
  show ?thesis
    using mk js
    by (auto simp add: example_args_fields example_state_files_same example_world_fields
        example_state_fields extract_files_empty_dict)
qed

end
